theory Spec2Isabelle
  imports Main "HOL-Library.Sublist"
begin

section \<open>Python values held in a session state\<close>

text \<open>
  A session state is a dictionary from string keys to Python values. The values modelled
  are \<open>None\<close>, booleans, (unbounded) integers and strings; a \<open>string\<close> stands for the
  sequence of characters of a Python \<open>str\<close>.
\<close>

datatype pyval = PyNone | PyBool bool | PyInt int | PyStr string

type_synonym state = "string \<rightharpoonup> pyval"

text \<open>\<open>d.get(key, default)\<close>: the stored value, or the default when the key is missing.\<close>

definition dict_get :: "('k \<rightharpoonup> 'v) \<Rightarrow> 'k \<Rightarrow> 'v \<Rightarrow> 'v" where
  "dict_get d k dflt = (case d k of None \<Rightarrow> dflt | Some v \<Rightarrow> v)"

text \<open>The decimal digit for \<open>d < 10\<close>; \<open>str_nat\<close> calls it on nothing else.\<close>

definition digit_char :: "nat \<Rightarrow> char" where
  "digit_char d = ''0123456789'' ! d"

function str_nat :: "nat \<Rightarrow> string" where
  "str_nat n = (if n < 10 then [digit_char n] else str_nat (n div 10) @ [digit_char (n mod 10)])"
  by pat_completeness auto
termination
  by (relation "measure (\<lambda>n. n)") auto

definition str_int :: "int \<Rightarrow> string" where
  "str_int i = (if i < 0 then CHR ''-'' # str_nat (nat (- i)) else str_nat (nat i))"

text \<open>
  \<open>str(v)\<close>, which is also what an f-string replacement field \<open>{v}\<close> with no format
  specification inserts.
\<close>

fun py_str :: "pyval \<Rightarrow> string" where
  "py_str PyNone = ''None''"
| "py_str (PyBool b) = (if b then ''True'' else ''False'')"
| "py_str (PyInt i) = str_int i"
| "py_str (PyStr s) = s"

text \<open>Truth value testing, as done by \<open>if v:\<close>.\<close>

fun py_truthy :: "pyval \<Rightarrow> bool" where
  "py_truthy PyNone = False"
| "py_truthy (PyBool b) = b"
| "py_truthy (PyInt i) = (i \<noteq> 0)"
| "py_truthy (PyStr s) = (s \<noteq> [])"

section \<open>The persona instruction (\<open>src/core/agent.py\<close>, \<open>dynamic_persona_provider\<close>)\<close>

text \<open>The framework's \<open>ReadonlyContext\<close>: the function reads nothing but its \<open>state\<close>.\<close>

record ReadonlyContext =
  state :: state

definition apostrophe :: char where
  "apostrophe = CHR 0x27"

definition dynamic_persona_provider :: "'a ReadonlyContext_scheme \<Rightarrow> string" where
  "dynamic_persona_provider context =
     (let use_role = dict_get (state context) ''user:role'' (PyStr ''Intern'');
          current_topic = dict_get (state context) ''current_topic'' (PyStr ''General Chat'')
      in ''You are a strict Senior Tech Lead. ''
         @ ''You are currently mentoring a user with the rank of '' @ [apostrophe]
         @ py_str use_role @ [apostrophe] @ ''. ''
         @ ''The current discussion topic is locked to: '' @ [apostrophe]
         @ py_str current_topic @ [apostrophe] @ ''. ''
         @ ''If the user asks about anything else, politely refuse and steer back to ''
         @ py_str current_topic @ ''. ''
         @ ''Keep answers concise and technical.'')"

section \<open>Startup configuration (\<open>src/core/config.py\<close>)\<close>

text \<open>
  Exceptions as values: the \<open>ValueError\<close> the configuration module raises, and any
  exception a collaborator of the framework raises (with its description).
\<close>

datatype exn = ValueError string | Raised string

type_synonym environ = "string \<rightharpoonup> string"

definition MODEL_NAME :: string where
  "MODEL_NAME = ''gemini-2.5-flash''"

text \<open>
  The module body. \<open>load_dotenv\<close> belongs to an external library and is a parameter: it
  maps the process environment to the environment \<open>os.getenv\<close> then reads. The result is
  the raised exception, or the value bound to \<open>GOOGLE_API_KEY\<close>.
\<close>

definition config :: "(environ \<Rightarrow> environ) \<Rightarrow> environ \<Rightarrow> exn + string" where
  "config load_dotenv environ =
     (let GOOGLE_API_KEY = (load_dotenv environ) ''GOOGLE_API_KEY''
      in case GOOGLE_API_KEY of
           None \<Rightarrow> Inl (ValueError ''GOOGLE_API_KEY is missing in .env'')
         | Some k \<Rightarrow>
             if k = [] then Inl (ValueError ''GOOGLE_API_KEY is missing in .env'')
             else Inr k)"

section \<open>Messages, events, sessions and the agent configuration\<close>

text \<open>
  The framework's data classes, with the fields the program touches. Optional fields are
  options. The field \<open>text\<close> of a part is named \<open>part_text\<close>, and the field \<open>id\<close> of a
  session \<open>session_ident\<close>.
\<close>

record Part =
  part_text :: "string option"

record Content =
  parts :: "Part list option"

record Event =
  content :: "Content option"

record Session =
  session_ident :: string
  session_state :: state

text \<open>The instruction of an agent is a fixed string or a function of the context.\<close>

datatype instruction = Static string | Dynamic "ReadonlyContext \<Rightarrow> string"

record LlmAgent =
  name :: string
  model :: string
  instruction :: instruction
  output_key :: "string option"

definition root_agent :: LlmAgent where
  "root_agent =
     \<lparr>name = ''TechLeadAgent'',
      model = MODEL_NAME,
      instruction = Dynamic dynamic_persona_provider,
      output_key = Some ''last_mentor_advice''\<rparr>"

record Runner =
  agent :: LlmAgent
  app_name :: string

section \<open>The collaborators and the trace of the driver\<close>

text \<open>
  The session service and the runner are external. They are parameters of the driver:
  functions of a world \<open>'w\<close> (whatever the framework holds: sessions, the model
  connection) that return their result and the next world. Creating or fetching a session
  returns it or raises; a turn's stream is the finite list of events it yields, followed
  by its normal end (\<open>None\<close>) or by an exception.
\<close>

record 'w Collaborators =
  create_session :: "'w \<Rightarrow> string \<Rightarrow> string \<Rightarrow> string \<Rightarrow> state \<Rightarrow> (exn + Session) \<times> 'w"
  run_async :: "'w \<Rightarrow> Runner \<Rightarrow> string \<Rightarrow> string \<Rightarrow> Content \<Rightarrow> (Event list \<times> exn option) \<times> 'w"
  get_session :: "'w \<Rightarrow> string \<Rightarrow> string \<Rightarrow> string \<Rightarrow> (exn + Session option) \<times> 'w"

text \<open>
  What the driver does, in order: the characters each \<open>print\<close> writes, the messages it
  logs, each call of a collaborator with its arguments, each event the \<open>async for\<close>
  receives from the stream, and the stream's end.
\<close>

datatype action =
    Print string
  | LogInfo string
  | LogWarning string
  | CreateSession string string string state
  | RunAsync string string Content
  | Recv Event
  | StreamEnd
  | GetSession string string string

section \<open>The driver (\<open>src/core/agent.py\<close>, \<open>main\<close>)\<close>

definition newline :: char where
  "newline = CHR 0x0A"

definition user_id :: string where
  "user_id = ''dev_001''"

definition session_id :: string where
  "session_id = ''session_alpha''"

definition main_app_name :: string where
  "main_app_name = ''EnterpriseApp''"

definition initial_state :: state where
  "initial_state =
     [''user:role'' \<mapsto> PyStr ''Junior Developer'',
      ''current_topic'' \<mapsto> PyStr ''Memory Management'']"

text \<open>The line the first \<open>print\<close> writes: the \<open>repr\<close> of the literal dictionary, framed.\<close>

definition initializing_line :: string where
  "initializing_line =
     ''--- INITIALIZING SESSION: {'' @ [apostrophe] @ ''user:role'' @ [apostrophe] @ '': ''
     @ [apostrophe] @ ''Junior Developer'' @ [apostrophe] @ '', ''
     @ [apostrophe] @ ''current_topic'' @ [apostrophe] @ '': ''
     @ [apostrophe] @ ''Memory Management'' @ [apostrophe] @ ''} ---'' @ [newline]"

definition prompts :: "string list" where
  "prompts = [''Hi, can you help me with Python?'', ''Okay, tell me about Stack and Heap.'']"

text \<open>The innermost loop: \<open>for part in event.content.parts\<close>.\<close>

fun print_parts :: "Part list \<Rightarrow> action list" where
  "print_parts [] = []"
| "print_parts (part # rest) =
     (case part_text part of
        None \<Rightarrow> []
      | Some t \<Rightarrow> if t \<noteq> [] then [Print (''MENTOR: '' @ t)] else [])
     @ print_parts rest"

text \<open>The body of the \<open>async for\<close>, for one event.\<close>

definition handle_event :: "Event \<Rightarrow> action list" where
  "handle_event event =
     (case content event of
        None \<Rightarrow> []
      | Some c \<Rightarrow>
          (case parts c of
             None \<Rightarrow> []
           | Some ps \<Rightarrow> if ps \<noteq> [] then print_parts ps else []))"

fun consume_events :: "Event list \<Rightarrow> action list" where
  "consume_events [] = []"
| "consume_events (event # rest) = Recv event # handle_event event @ consume_events rest"

text \<open>
  One iteration of \<open>for prompt in prompts\<close>. An exception of the stream leaves the loop
  and \<open>main\<close> after the events before it were handled.
\<close>

definition new_message :: "string \<Rightarrow> Content" where
  "new_message prompt = \<lparr>parts = Some [\<lparr>part_text = Some prompt\<rparr>]\<rparr>"

definition turn ::
  "'w Collaborators \<Rightarrow> Runner \<Rightarrow> 'w \<Rightarrow> string \<Rightarrow> action list \<times> exn option \<times> 'w" where
  "turn c runner w prompt =
     (let t = [Print ([newline] @ ''USER: '' @ prompt @ [newline]),
               RunAsync user_id session_id (new_message prompt)]
      in case run_async c w runner user_id session_id (new_message prompt) of
           ((events, Some e), w') \<Rightarrow> (t @ consume_events events, Some e, w')
         | ((events, None), w') \<Rightarrow>
             (t @ consume_events events @ [StreamEnd, Print [newline]], None, w'))"

fun prompt_loop ::
  "'w Collaborators \<Rightarrow> Runner \<Rightarrow> 'w \<Rightarrow> string list \<Rightarrow> action list \<times> exn option \<times> 'w" where
  "prompt_loop c runner w [] = ([], None, w)"
| "prompt_loop c runner w (prompt # rest) =
     (case turn c runner w prompt of
        (t, Some e, w') \<Rightarrow> (t, Some e, w')
      | (t, None, w') \<Rightarrow>
          (case prompt_loop c runner w' rest of (t', r, w'') \<Rightarrow> (t @ t', r, w'')))"

text \<open>The check after the loop, on what \<open>get_session\<close> returned.\<close>

definition verify :: "Session option \<Rightarrow> action list" where
  "verify updated_session =
     (case updated_session of
        None \<Rightarrow> []
      | Some s \<Rightarrow>
          (let saved_advice = dict_get (session_state s) ''last_mentor_advice'' PyNone
           in if py_truthy saved_advice
              then [LogInfo (''State '' @ [apostrophe] @ ''last_mentor_advice'' @ [apostrophe]
                             @ '': '' @ take 50 (py_str saved_advice) @ ''...'')]
              else [LogWarning (''State '' @ [apostrophe] @ ''last_mentor_advice''
                                @ [apostrophe] @ '' is empty!'')]))"

definition main :: "'w Collaborators \<Rightarrow> 'w \<Rightarrow> action list \<times> (exn + unit) \<times> 'w" where
  "main c w =
     (let runner = \<lparr>agent = root_agent, app_name = main_app_name\<rparr>;
          t0 = [Print initializing_line,
                CreateSession main_app_name user_id session_id initial_state]
      in case create_session c w main_app_name user_id session_id initial_state of
           (Inl e, w1) \<Rightarrow> (t0, Inl e, w1)
         | (Inr session, w1) \<Rightarrow>
             (let t1 = t0 @ [LogInfo (''Session created successfully: ''
                                      @ session_ident session @ '' for user '' @ user_id)]
              in case prompt_loop c runner w1 prompts of
                   (t2, Some e, w2) \<Rightarrow> (t1 @ t2, Inl e, w2)
                 | (t2, None, w2) \<Rightarrow>
                     (let t3 = t1 @ t2 @ [GetSession main_app_name user_id session_id]
                      in case get_session c w2 main_app_name user_id session_id of
                           (Inl e, w3) \<Rightarrow> (t3, Inl e, w3)
                         | (Inr updated_session, w3) \<Rightarrow>
                             (t3 @ verify updated_session, Inr (), w3))))"

text \<open>
  The process: importing the configuration module comes first, and an exception there
  ends the process before \<open>main\<close> is entered.
\<close>

definition program ::
  "(environ \<Rightarrow> environ) \<Rightarrow> environ \<Rightarrow> 'w Collaborators \<Rightarrow> 'w \<Rightarrow> action list \<times> (exn + unit) \<times> 'w" where
  "program load_dotenv environ c w =
     (case config load_dotenv environ of
        Inl e \<Rightarrow> ([], Inl e, w)
      | Inr k \<Rightarrow> main c w)"

section \<open>Observations on a trace\<close>


fun received :: "action list \<Rightarrow> Event list" where
  "received [] = []"
| "received (Recv e # t) = e # received t"
| "received (a # t) = received t"

fun printed :: "action list \<Rightarrow> string list" where
  "printed [] = []"
| "printed (Print s # t) = s # printed t"
| "printed (a # t) = printed t"

fun logged :: "action list \<Rightarrow> action list" where
  "logged [] = []"
| "logged (LogInfo s # t) = LogInfo s # logged t"
| "logged (LogWarning s # t) = LogWarning s # logged t"
| "logged (a # t) = logged t"




text \<open>
  The text fragments of an event, in the words of the specification: the texts its content
  parts carry, the empty ones left out; none for an event without content or parts.
\<close>

definition text_fragments :: "Event \<Rightarrow> string list" where
  "text_fragments e =
     (case content e of
        None \<Rightarrow> []
      | Some c \<Rightarrow>
          (case parts c of
             None \<Rightarrow> []
           | Some ps \<Rightarrow> filter (\<lambda>t. t \<noteq> []) (List.map_filter part_text ps)))"

definition mentor_line :: "string \<Rightarrow> action" where
  "mentor_line t = Print (''MENTOR: '' @ t)"

section \<open>Stand-ins for the collaborators\<close>

text \<open>
  A scripted stand-in, to run the driver on concrete inputs. Its world is the list of the
  streams still to be played, one per turn; creating a session returns it as given, and
  fetching one returns \<open>fetched\<close>.
\<close>

definition scripted :: "Session option \<Rightarrow> (Event list \<times> exn option) list Collaborators" where
  "scripted fetched =
     \<lparr>create_session = (\<lambda>w app user sid st. (Inr \<lparr>session_ident = sid, session_state = st\<rparr>, w)),
      run_async = (\<lambda>w runner user sid msg.
         case w of [] \<Rightarrow> (([], None), []) | stream # rest \<Rightarrow> (stream, rest)),
      get_session = (\<lambda>w app user sid. (Inr fetched, w))\<rparr>"

definition text_event :: "string \<Rightarrow> Event" where
  "text_event t = \<lparr>content = Some \<lparr>parts = Some [\<lparr>part_text = Some t\<rparr>]\<rparr>\<rparr>"

section \<open>The framework's session store and runner\<close>

text \<open>
  The repository imports the session service and the runner from the agent framework and
  does not implement them. The definitions of this section stand for them when a property
  depends on what they do with the agent configuration; the language model behind the
  runner stays a parameter \<open>llm\<close>: from the instruction text, the user's message and the
  session state at the start of the turn it gives the turn's events and the state after
  the turn's side effects.
\<close>

record World =
  sessions :: "string \<times> string \<times> string \<rightharpoonup> state"
  model_calls :: "(state \<times> string) list"

text \<open>
  Modelled from the spec: how the framework's runner (not in the repository) obtains the
  instruction of a turn. The instruction source is either a static string or a function
  of the current session state, evaluated fresh per turn.
\<close>

definition resolve_instruction :: "instruction \<Rightarrow> state \<Rightarrow> string" where
  "resolve_instruction i st = (case i of Static s \<Rightarrow> s | Dynamic f \<Rightarrow> f \<lparr>state = st\<rparr>)"

text \<open>
  Modelled from the spec: the write of the output key by the framework's runner (not in
  the repository). The configured output key is written with the agent's final textual
  response for the turn, taken here as the text of the turn's last event.
\<close>

definition store_output :: "LlmAgent \<Rightarrow> Event list \<Rightarrow> state \<Rightarrow> state" where
  "store_output a events st =
     (case output_key a of
        None \<Rightarrow> st
      | Some k \<Rightarrow>
          (case rev events of
             [] \<Rightarrow> st
           | e # earlier \<Rightarrow> st(k \<mapsto> PyStr (concat (text_fragments e)))))"

text \<open>
  Modelled from the spec: one turn of the framework's runner (not in the repository).
  Given the agent configuration, the session and the user's message it produces the
  turn's events and writes the state back into the session; the instruction is resolved
  on the session state as the turn finds it, and \<open>model_calls\<close> records that state with
  the instruction text handed to the language model. The spec is silent on a session
  that does not exist; the stream then raises.
\<close>

definition run_turn ::
  "(string \<Rightarrow> Content \<Rightarrow> state \<Rightarrow> Event list \<times> state) \<Rightarrow> World \<Rightarrow> Runner \<Rightarrow> string \<Rightarrow> string
   \<Rightarrow> Content \<Rightarrow> (Event list \<times> exn option) \<times> World" where
  "run_turn llm w runner user sid msg =
     (case sessions w (app_name runner, user, sid) of
        None \<Rightarrow> (([], Some (Raised ''session not found'')), w)
      | Some st \<Rightarrow>
          (let text = resolve_instruction (instruction (agent runner)) st;
               (events, st') = llm text msg st
           in ((events, None),
               w\<lparr>sessions := (sessions w)((app_name runner, user, sid) \<mapsto>
                                 store_output (agent runner) events st'),
                 model_calls := model_calls w @ [(st, text)]\<rparr>)))"

text \<open>
  Modelled from the spec: the framework's session store (not in the repository), a
  mapping from (application, user, session) to the state, with \<open>create\<close> and \<open>get\<close>;
  together with \<open>run_turn\<close> these are the collaborators of the driver.
\<close>

definition framework ::
  "(string \<Rightarrow> Content \<Rightarrow> state \<Rightarrow> Event list \<times> state) \<Rightarrow> World Collaborators" where
  "framework llm =
     \<lparr>create_session = (\<lambda>w app user sid st.
         (Inr \<lparr>session_ident = sid, session_state = st\<rparr>,
          w\<lparr>sessions := (sessions w)((app, user, sid) \<mapsto> st)\<rparr>)),
      run_async = run_turn llm,
      get_session = (\<lambda>w app user sid.
         (Inr (case sessions w (app, user, sid) of
                 None \<Rightarrow> None
               | Some st \<Rightarrow> Some \<lparr>session_ident = sid, session_state = st\<rparr>), w))\<rparr>"

text \<open>A language model that answers one line and moves the topic to what it is asked.\<close>

definition topic_changing_llm :: "string \<Rightarrow> Content \<Rightarrow> state \<Rightarrow> Event list \<times> state" where
  "topic_changing_llm text msg st =
     ([text_event ''Noted.''], st(''current_topic'' \<mapsto> PyStr ''Stack and Heap''))"

section \<open>The persona function with its effects explicit\<close>

text \<open>
  The body of \<open>dynamic_persona_provider\<close> once more, statement by statement, as a
  computation on what a call can touch: the context it is given and the actions performed
  so far (prints, log messages, calls of collaborators), with whatever else the
  interpreter holds in the record's extension. Each statement returns its value and the
  invocation it leaves behind.
\<close>

record Invocation =
  ctx :: ReadonlyContext
  performed :: "action list"

text \<open>
  \<open>context.state.get(key, default)\<close>: a read of the state. It returns the stored value
  or the default and leaves the invocation as it found it.
\<close>

definition state_get ::
  "string \<Rightarrow> pyval \<Rightarrow> 'a Invocation_scheme \<Rightarrow> pyval \<times> 'a Invocation_scheme" where
  "state_get key dflt call = (dict_get (state (ctx call)) key dflt, call)"

text \<open>
  The two assignments and the \<open>return\<close> of the f-string, in the order of the source;
  building the string reads the two local variables and touches nothing else.
\<close>

definition dynamic_persona_provider_run ::
  "'a Invocation_scheme \<Rightarrow> string \<times> 'a Invocation_scheme" where
  "dynamic_persona_provider_run call =
     (case state_get ''user:role'' (PyStr ''Intern'') call of
        (use_role, call1) \<Rightarrow>
          (case state_get ''current_topic'' (PyStr ''General Chat'') call1 of
             (current_topic, call2) \<Rightarrow>
               (''You are a strict Senior Tech Lead. ''
                @ ''You are currently mentoring a user with the rank of '' @ [apostrophe]
                @ py_str use_role @ [apostrophe] @ ''. ''
                @ ''The current discussion topic is locked to: '' @ [apostrophe]
                @ py_str current_topic @ [apostrophe] @ ''. ''
                @ ''If the user asks about anything else, politely refuse and steer back to ''
                @ py_str current_topic @ ''. ''
                @ ''Keep answers concise and technical.'', call2)))"

section \<open>The persona instruction: defaults, contents, dependence on the state\<close>

text \<open>
  C2. When the key \<open>user:role\<close> is missing from the state, the function returns the
  instruction with the role \<open>Intern\<close> in the place of the role, and when \<open>current_topic\<close>
  is missing, the instruction with the topic \<open>General Chat\<close> in both places of the topic;
  with both missing it returns the instruction of the two defaults. The other value is the
  stored one, or its default. The body has no operation that raises (both reads are
  \<open>.get\<close> with a default), so in each of these cases the function returns, and what it
  returns is the string given here.
\<close>

theorem persona_defaults:
  "(state context ''user:role'' = None \<longrightarrow>
      dynamic_persona_provider context =
        ''You are a strict Senior Tech Lead. You are currently mentoring a user with the rank of 'Intern'. The current discussion topic is locked to: ''
        @ [apostrophe]
        @ py_str (case state context ''current_topic'' of
                    None \<Rightarrow> PyStr ''General Chat'' | Some v \<Rightarrow> v)
        @ [apostrophe]
        @ ''. If the user asks about anything else, politely refuse and steer back to ''
        @ py_str (case state context ''current_topic'' of
                    None \<Rightarrow> PyStr ''General Chat'' | Some v \<Rightarrow> v)
        @ ''. Keep answers concise and technical.'')
   \<and> (state context ''current_topic'' = None \<longrightarrow>
      dynamic_persona_provider context =
        ''You are a strict Senior Tech Lead. You are currently mentoring a user with the rank of ''
        @ [apostrophe]
        @ py_str (case state context ''user:role'' of
                    None \<Rightarrow> PyStr ''Intern'' | Some v \<Rightarrow> v)
        @ [apostrophe]
        @ ''. The current discussion topic is locked to: 'General Chat'. If the user asks about anything else, politely refuse and steer back to General Chat. Keep answers concise and technical.'')
   \<and> (state context ''user:role'' = None \<and> state context ''current_topic'' = None \<longrightarrow>
      dynamic_persona_provider context =
        ''You are a strict Senior Tech Lead. You are currently mentoring a user with the rank of 'Intern'. The current discussion topic is locked to: 'General Chat'. If the user asks about anything else, politely refuse and steer back to General Chat. Keep answers concise and technical.'')"
  by (simp add: dynamic_persona_provider_def dict_get_def apostrophe_def Let_def)

theorem persona_defaults_witness:
  "dynamic_persona_provider \<lparr>state = [''current_topic'' \<mapsto> PyStr ''Heaps'']\<rparr> =
   ''You are a strict Senior Tech Lead. You are currently mentoring a user with the rank of 'Intern'. The current discussion topic is locked to: 'Heaps'. If the user asks about anything else, politely refuse and steer back to Heaps. Keep answers concise and technical.''
   \<and> dynamic_persona_provider \<lparr>state = [''user:role'' \<mapsto> PyInt (-170)]\<rparr> =
   ''You are a strict Senior Tech Lead. You are currently mentoring a user with the rank of '-170'. The current discussion topic is locked to: 'General Chat'. If the user asks about anything else, politely refuse and steer back to General Chat. Keep answers concise and technical.''
   \<and> dynamic_persona_provider \<lparr>state = [''last_mentor_advice'' \<mapsto> PyStr ''Use a heap.'']\<rparr> =
   ''You are a strict Senior Tech Lead. You are currently mentoring a user with the rank of 'Intern'. The current discussion topic is locked to: 'General Chat'. If the user asks about anything else, politely refuse and steer back to General Chat. Keep answers concise and technical.''"
  using persona_defaults [of "\<lparr>state = [''current_topic'' \<mapsto> PyStr ''Heaps'']\<rparr>"]
    persona_defaults [of "\<lparr>state = [''user:role'' \<mapsto> PyInt (-170)]\<rparr>"]
    persona_defaults [of "\<lparr>state = [''last_mentor_advice'' \<mapsto> PyStr ''Use a heap.'']\<rparr>"]
  by (simp add: apostrophe_def str_int_def digit_char_def)

text \<open>
  C3. When both keys are present and hold strings, the instruction contains both stored
  strings verbatim, as contiguous substrings.
\<close>

theorem persona_embeds_values:
  assumes "state context ''user:role'' = Some (PyStr role)"
    and "state context ''current_topic'' = Some (PyStr topic)"
  shows "sublist role (dynamic_persona_provider context)
         \<and> sublist topic (dynamic_persona_provider context)"
proof -
  let ?r = "dynamic_persona_provider context"
  have "\<exists>ps ss. ?r = ps @ role @ ss"
    using assms unfolding dynamic_persona_provider_def dict_get_def Let_def
    by (metis append.assoc option.simps(5) py_str.simps(4))
  moreover have "\<exists>ps ss. ?r = ps @ topic @ ss"
    using assms unfolding dynamic_persona_provider_def dict_get_def Let_def
    by (metis append.assoc option.simps(5) py_str.simps(4))
  ultimately show ?thesis by (simp add: sublist_def)
qed

theorem persona_embeds_values_witness:
  "sublist ''Junior Developer'' (dynamic_persona_provider \<lparr>state = initial_state\<rparr>)
   \<and> sublist ''Memory Management'' (dynamic_persona_provider \<lparr>state = initial_state\<rparr>)"
  using persona_embeds_values [of "\<lparr>state = initial_state\<rparr>" "''Junior Developer''"
      "''Memory Management''"]
  by (simp add: initial_state_def)

text \<open>
  C4. The function is deterministic and pure. Run with its effects explicit, it leaves the
  invocation as it found it: the context, the actions performed so far and everything else
  are unchanged, so it prints, logs, calls and writes nothing. What it returns is the
  instruction of \<open>dynamic_persona_provider\<close> on the context. Two invocations whose
  contexts hold equal states return the same string, character for character, whatever
  else differs between them; and a second call after a first returns what the first did.
\<close>

theorem persona_deterministic_and_pure:
  "snd (dynamic_persona_provider_run call) = call
   \<and> fst (dynamic_persona_provider_run call) = dynamic_persona_provider (ctx call)
   \<and> (state (ctx i1) = state (ctx i2) \<longrightarrow>
        fst (dynamic_persona_provider_run i1) = fst (dynamic_persona_provider_run i2))
   \<and> dynamic_persona_provider_run (snd (dynamic_persona_provider_run call)) =
       dynamic_persona_provider_run call"
  by (simp add: dynamic_persona_provider_run_def state_get_def dynamic_persona_provider_def
      Let_def)

theorem persona_deterministic_and_pure_witness:
  "dynamic_persona_provider_run
     \<lparr>ctx = \<lparr>state = initial_state\<rparr>, performed = [Print ''x'', LogInfo ''earlier'']\<rparr> =
   (''You are a strict Senior Tech Lead. You are currently mentoring a user with the rank of 'Junior Developer'. The current discussion topic is locked to: 'Memory Management'. If the user asks about anything else, politely refuse and steer back to Memory Management. Keep answers concise and technical.'',
    \<lparr>ctx = \<lparr>state = initial_state\<rparr>, performed = [Print ''x'', LogInfo ''earlier'']\<rparr>)
   \<and> fst (dynamic_persona_provider_run
          \<lparr>ctx = \<lparr>state = initial_state\<rparr>, performed = [Print ''x'', LogInfo ''earlier'']\<rparr>) =
     fst (dynamic_persona_provider_run
          \<lparr>ctx = \<lparr>state = initial_state\<rparr>, performed = [], \<dots> = ''a later call''\<rparr>)"
proof -
  let ?a = "\<lparr>ctx = \<lparr>state = initial_state\<rparr>, performed = [Print ''x'', LogInfo ''earlier'']\<rparr>"
  let ?b = "\<lparr>ctx = \<lparr>state = initial_state\<rparr>, performed = [], \<dots> = ''a later call''\<rparr>"
  note run = persona_deterministic_and_pure [where call = ?a and ?i1.0 = ?a and ?i2.0 = ?b]
  have unchanged: "snd (dynamic_persona_provider_run ?a) = ?a"
    using run by blast
  have returned: "fst (dynamic_persona_provider_run ?a) = dynamic_persona_provider (ctx ?a)"
    using run by blast
  have "state (ctx ?a) = state (ctx ?b)"
    by simp
  with run have same:
    "fst (dynamic_persona_provider_run ?a) = fst (dynamic_persona_provider_run ?b)"
    by blast
  have literal: "dynamic_persona_provider (ctx ?a) =
    ''You are a strict Senior Tech Lead. You are currently mentoring a user with the rank of 'Junior Developer'. The current discussion topic is locked to: 'Memory Management'. If the user asks about anything else, politely refuse and steer back to Memory Management. Keep answers concise and technical.''"
    by (simp add: dynamic_persona_provider_def dict_get_def initial_state_def apostrophe_def)
  show ?thesis
    using unchanged returned same literal by (simp only: prod_eq_iff fst_conv snd_conv simp_thms)
qed

text \<open>
  C10. The instruction depends on no key but \<open>user:role\<close> and \<open>current_topic\<close>: two
  states that agree on these two keys (present with the same value, or both absent) give
  the same instruction, whatever their other keys hold.
\<close>

theorem persona_two_keys_only:
  assumes "state c1 ''user:role'' = state c2 ''user:role''"
    and "state c1 ''current_topic'' = state c2 ''current_topic''"
  shows "dynamic_persona_provider c1 = dynamic_persona_provider c2"
  using assms by (simp add: dynamic_persona_provider_def dict_get_def)

theorem persona_two_keys_only_witness:
  "dynamic_persona_provider \<lparr>state = [''current_topic'' \<mapsto> PyStr ''Heaps'']\<rparr> =
   dynamic_persona_provider
     \<lparr>state = [''current_topic'' \<mapsto> PyStr ''Heaps'',
               ''last_mentor_advice'' \<mapsto> PyStr ''Use a heap.'', ''turns'' \<mapsto> PyInt 2]\<rparr>"
  using persona_two_keys_only [of "\<lparr>state = [''current_topic'' \<mapsto> PyStr ''Heaps'']\<rparr>"
     "\<lparr>state = [''current_topic'' \<mapsto> PyStr ''Heaps'',
               ''last_mentor_advice'' \<mapsto> PyStr ''Use a heap.'', ''turns'' \<mapsto> PyInt 2]\<rparr>"]
  by simp

section \<open>Startup: the required credential\<close>

text \<open>
  The claim that startup succeeds whenever \<open>GOOGLE_API_KEY\<close> is present fails for a
  variable that is set to the empty string: the variable is present, and the module raises.
\<close>

theorem config_present_counterexample:
  "map_of [(''GOOGLE_API_KEY'', [])] ''GOOGLE_API_KEY'' \<noteq> None
   \<and> config id (map_of [(''GOOGLE_API_KEY'', [])]) =
       Inl (ValueError ''GOOGLE_API_KEY is missing in .env'')
   \<and> program id (map_of [(''GOOGLE_API_KEY'', [])]) (scripted None) [] =
       ([], Inl (ValueError ''GOOGLE_API_KEY is missing in .env''), [])"
  by (simp add: config_def program_def)

text \<open>
  C5, amended. If \<open>GOOGLE_API_KEY\<close> is absent or empty, the process fails at startup
  with the \<open>ValueError\<close> and its message, before anything else happens: the trace is
  empty and the world untouched. If it is present and not empty, the configuration module
  raises nothing and the process goes on as \<open>main\<close>.
\<close>

theorem config_key_required:
  "(load_dotenv environ ''GOOGLE_API_KEY'' = None
      \<or> load_dotenv environ ''GOOGLE_API_KEY'' = Some [] \<longrightarrow>
      config load_dotenv environ = Inl (ValueError ''GOOGLE_API_KEY is missing in .env'')
      \<and> program load_dotenv environ c w =
          ([], Inl (ValueError ''GOOGLE_API_KEY is missing in .env''), w))
   \<and> (load_dotenv environ ''GOOGLE_API_KEY'' = Some k \<and> k \<noteq> [] \<longrightarrow>
      config load_dotenv environ = Inr k \<and> program load_dotenv environ c w = main c w)"
  by (auto simp add: config_def program_def)

theorem config_key_required_witness:
  "program id Map.empty (scripted None) [] =
     ([], Inl (ValueError ''GOOGLE_API_KEY is missing in .env''), [])
   \<and> config id [''GOOGLE_API_KEY'' \<mapsto> ''k-123''] = Inr ''k-123''
   \<and> program id [''GOOGLE_API_KEY'' \<mapsto> ''k-123''] (scripted None) [] = main (scripted None) []"
  using config_key_required [where load_dotenv = id and environ = Map.empty
      and c = "scripted None" and w = "[]"]
    config_key_required [where load_dotenv = id
      and environ = "[''GOOGLE_API_KEY'' \<mapsto> ''k-123'']"
      and k = "''k-123''" and c = "scripted None" and w = "[]"]
  by simp

section \<open>The driver: the loops and the observations\<close>

text \<open>
  The loops print what the specification calls the text fragments; the observations
  distribute over the concatenation of traces; the monitor of a turn's trace ends idle
  when the stream ended and in flight when it raised.
\<close>

lemma print_parts_fragments:
  "print_parts ps = map mentor_line (filter (\<lambda>t. t \<noteq> []) (List.map_filter part_text ps))"
  by (induction ps) (auto simp: mentor_line_def List.map_filter_simps split: option.splits)

lemma handle_event_fragments: "handle_event e = map mentor_line (text_fragments e)"
  by (auto simp: handle_event_def text_fragments_def print_parts_fragments List.map_filter_simps
      split: option.splits)

lemma consume_events_fragments:
  "consume_events events = concat (map (\<lambda>e. Recv e # map mentor_line (text_fragments e)) events)"
  by (induction events) (simp_all add: handle_event_fragments)

lemma received_append: "received (t @ t') = received t @ received t'"
  by (induction t rule: received.induct) simp_all

lemma printed_append: "printed (t @ t') = printed t @ printed t'"
  by (induction t rule: printed.induct) simp_all


lemma logged_append: "logged (t @ t') = logged t @ logged t'"
  by (induction t rule: logged.induct) simp_all

lemma received_mentor: "received (map mentor_line ts) = []"
  by (induction ts) (simp_all add: mentor_line_def)

lemma printed_mentor: "printed (map mentor_line ts) = map (\<lambda>t. ''MENTOR: '' @ t) ts"
  by (induction ts) (simp_all add: mentor_line_def)


lemma logged_mentor: "logged (map mentor_line ts) = []"
  by (induction ts) (simp_all add: mentor_line_def)

lemma received_consume: "received (consume_events events) = events"
  by (induction events) (simp_all add: handle_event_fragments received_append received_mentor)

lemma printed_consume:
  "printed (consume_events events) =
   map (\<lambda>t. ''MENTOR: '' @ t) (concat (map text_fragments events))"
  by (induction events) (simp_all add: handle_event_fragments printed_append printed_mentor)


lemma logged_consume: "logged (consume_events events) = []"
  by (induction events) (simp_all add: handle_event_fragments logged_append logged_mentor)



lemma turn_cases:
  obtains (raised) events e w' where
      "run_async c w runner user_id session_id (new_message prompt) = ((events, Some e), w')"
      "turn c runner w prompt =
        ([Print ([newline] @ ''USER: '' @ prompt @ [newline]),
          RunAsync user_id session_id (new_message prompt)] @ consume_events events, Some e, w')"
  | (ended) events w' where
      "run_async c w runner user_id session_id (new_message prompt) = ((events, None), w')"
      "turn c runner w prompt =
        ([Print ([newline] @ ''USER: '' @ prompt @ [newline]),
          RunAsync user_id session_id (new_message prompt)] @ consume_events events
          @ [StreamEnd, Print [newline]], None, w')"
proof (cases "run_async c w runner user_id session_id (new_message prompt)")
  case (Pair stream w')
  obtain events r where s: "stream = (events, r)" by (cases stream)
  show ?thesis
  proof (cases r)
    case None
    with Pair s show ?thesis by (intro ended[of events w']) (simp_all add: turn_def)
  next
    case (Some e)
    with Pair s show ?thesis by (intro raised[of events e w']) (simp_all add: turn_def)
  qed
qed


lemma turn_logged: "logged (fst (turn c runner w prompt)) = []"
  by (rule turn_cases[of c w runner prompt]) (simp_all add: logged_append logged_consume)



lemma prompt_loop_logged: "logged (fst (prompt_loop c runner w ps)) = []"
proof (induction ps arbitrary: w)
  case Nil
  show ?case by simp
next
  case (Cons p ps)
  obtain t r w' where tr: "turn c runner w p = (t, r, w')" by (cases "turn c runner w p")
  have l: "logged t = []" using turn_logged[of c runner w p] tr by simp
  show ?case
  proof (cases r)
    case (Some e)
    with tr l show ?thesis by simp
  next
    case None
    obtain t' r' w'' where pl: "prompt_loop c runner w' ps = (t', r', w'')"
      by (cases "prompt_loop c runner w' ps")
    with tr None l Cons.IH[of w'] show ?thesis by (simp add: logged_append)
  qed
qed






section \<open>The turn: events consumed and fragments printed\<close>

text \<open>
  C8. Within a turn the driver consumes the turn's event sequence to its end: the events it
  receives are the events of the stream, in order. Right after each event it prints one
  \<open>MENTOR:\<close> fragment for each content part of that event that carries a non-empty text, in
  the order of the parts, and nothing for an event without content, without parts or
  without text. When the stream ends normally, the trace of the turn is the prompt line,
  the submission, these receptions and prints, the stream's end and a newline.
\<close>

theorem turn_prints_text_fragments:
  "consume_events events =
     concat (map (\<lambda>e. Recv e # map mentor_line (text_fragments e)) events)
   \<and> received (consume_events events) = events
   \<and> printed (consume_events events) =
       map (\<lambda>t. ''MENTOR: '' @ t) (concat (map text_fragments events))
   \<and> (run_async c w runner user_id session_id (new_message prompt) = ((events, None), w') \<longrightarrow>
        turn c runner w prompt =
          ([Print ([newline] @ ''USER: '' @ prompt @ [newline]),
            RunAsync user_id session_id (new_message prompt)]
           @ concat (map (\<lambda>e. Recv e # map mentor_line (text_fragments e)) events)
           @ [StreamEnd, Print [newline]], None, w'))"
  by (auto simp: consume_events_fragments[symmetric] received_consume printed_consume turn_def)

theorem turn_prints_text_fragments_witness:
  "turn (scripted None)
     \<lparr>agent = root_agent, app_name = main_app_name\<rparr>
     [([\<lparr>content = None\<rparr>,
        \<lparr>content = Some \<lparr>parts = None\<rparr>\<rparr>,
        \<lparr>content = Some \<lparr>parts = Some []\<rparr>\<rparr>,
        \<lparr>content = Some \<lparr>parts = Some [\<lparr>part_text = Some ''Use ''\<rparr>, \<lparr>part_text = None\<rparr>,
                                        \<lparr>part_text = Some []\<rparr>, \<lparr>part_text = Some ''a heap.''\<rparr>]\<rparr>\<rparr>,
        text_event ''Done.''], None)]
     ''Hi'' =
   ([Print ([newline] @ ''USER: Hi'' @ [newline]),
     RunAsync user_id session_id (new_message ''Hi''),
     Recv \<lparr>content = None\<rparr>,
     Recv \<lparr>content = Some \<lparr>parts = None\<rparr>\<rparr>,
     Recv \<lparr>content = Some \<lparr>parts = Some []\<rparr>\<rparr>,
     Recv \<lparr>content = Some \<lparr>parts = Some [\<lparr>part_text = Some ''Use ''\<rparr>, \<lparr>part_text = None\<rparr>,
                                        \<lparr>part_text = Some []\<rparr>, \<lparr>part_text = Some ''a heap.''\<rparr>]\<rparr>\<rparr>,
     Print ''MENTOR: Use '',
     Print ''MENTOR: a heap.'',
     Recv (text_event ''Done.''),
     Print ''MENTOR: Done.'',
     StreamEnd,
     Print [newline]], None, [])"
  using turn_prints_text_fragments [where c = "scripted None"
      and runner = "\<lparr>agent = root_agent, app_name = main_app_name\<rparr>"
      and prompt = "''Hi''" and w' = "[]"
      and events = "[\<lparr>content = None\<rparr>,
        \<lparr>content = Some \<lparr>parts = None\<rparr>\<rparr>,
        \<lparr>content = Some \<lparr>parts = Some []\<rparr>\<rparr>,
        \<lparr>content = Some \<lparr>parts = Some [\<lparr>part_text = Some ''Use ''\<rparr>, \<lparr>part_text = None\<rparr>,
                                        \<lparr>part_text = Some []\<rparr>, \<lparr>part_text = Some ''a heap.''\<rparr>]\<rparr>\<rparr>,
        text_event ''Done.'']"
      and w = "[([\<lparr>content = None\<rparr>,
        \<lparr>content = Some \<lparr>parts = None\<rparr>\<rparr>,
        \<lparr>content = Some \<lparr>parts = Some []\<rparr>\<rparr>,
        \<lparr>content = Some \<lparr>parts = Some [\<lparr>part_text = Some ''Use ''\<rparr>, \<lparr>part_text = None\<rparr>,
                                        \<lparr>part_text = Some []\<rparr>, \<lparr>part_text = Some ''a heap.''\<rparr>]\<rparr>\<rparr>,
        text_event ''Done.''], None)]"]
  by (simp add: scripted_def text_fragments_def mentor_line_def List.map_filter_simps text_event_def)

section \<open>The prompt loop: order and sequencing\<close>



section \<open>The check after the loop\<close>

text \<open>
  C7. After all prompts were processed, the driver fetches the session again and reads
  \<open>last_mentor_advice\<close>. With a session returned, it logs one message and completes
  normally: a warning when the value is absent or an empty string, and otherwise the first
  50 characters of the value followed by three dots. (For a value that is not a string
  the test is Python's truth value of it and the preview is that of \<open>str\<close> of it.)
\<close>

theorem verification_is_not_fatal:
  assumes "create_session c w main_app_name user_id session_id initial_state = (Inr s, w1)"
    and "prompt_loop c \<lparr>agent = root_agent, app_name = main_app_name\<rparr> w1 prompts = (t, None, w2)"
    and "get_session c w2 main_app_name user_id session_id = (Inr (Some u), w3)"
  shows "main c w =
           ([Print initializing_line,
             CreateSession main_app_name user_id session_id initial_state,
             LogInfo (''Session created successfully: '' @ session_ident s @ '' for user '' @ user_id)]
            @ t @ [GetSession main_app_name user_id session_id] @ verify (Some u), Inr (), w3)
         \<and> verify (Some u) =
           (case session_state u ''last_mentor_advice'' of
              None \<Rightarrow> [LogWarning ''State 'last_mentor_advice' is empty!'']
            | Some (PyStr a) \<Rightarrow>
                if a = [] then [LogWarning ''State 'last_mentor_advice' is empty!'']
                else [LogInfo (''State 'last_mentor_advice': '' @ take 50 a @ ''...'')]
            | Some v \<Rightarrow>
                if py_truthy v
                then [LogInfo (''State 'last_mentor_advice': '' @ take 50 (py_str v) @ ''...'')]
                else [LogWarning ''State 'last_mentor_advice' is empty!''])"
proof
  show "main c w =
           ([Print initializing_line,
             CreateSession main_app_name user_id session_id initial_state,
             LogInfo (''Session created successfully: '' @ session_ident s @ '' for user '' @ user_id)]
            @ t @ [GetSession main_app_name user_id session_id] @ verify (Some u), Inr (), w3)"
    using assms by (simp add: main_def)
  show "verify (Some u) =
           (case session_state u ''last_mentor_advice'' of
              None \<Rightarrow> [LogWarning ''State 'last_mentor_advice' is empty!'']
            | Some (PyStr a) \<Rightarrow>
                if a = [] then [LogWarning ''State 'last_mentor_advice' is empty!'']
                else [LogInfo (''State 'last_mentor_advice': '' @ take 50 a @ ''...'')]
            | Some v \<Rightarrow>
                if py_truthy v
                then [LogInfo (''State 'last_mentor_advice': '' @ take 50 (py_str v) @ ''...'')]
                else [LogWarning ''State 'last_mentor_advice' is empty!''])"
    by (simp add: verify_def dict_get_def apostrophe_def split: option.splits pyval.splits)
qed

theorem verification_is_not_fatal_witness:
  "main (scripted (Some \<lparr>session_ident = session_id,
            session_state = initial_state(''last_mentor_advice'' \<mapsto>
              PyStr ''Python fits here only as a contrast: its objects live on the heap.'')\<rparr>))
        [([text_event ''Sure.''], None), ([], None)] =
     ([Print initializing_line,
       CreateSession main_app_name user_id session_id initial_state,
       LogInfo ''Session created successfully: session_alpha for user dev_001'',
       Print ([newline] @ ''USER: Hi, can you help me with Python?'' @ [newline]),
       RunAsync user_id session_id (new_message ''Hi, can you help me with Python?''),
       Recv (text_event ''Sure.''),
       Print ''MENTOR: Sure.'',
       StreamEnd,
       Print [newline],
       Print ([newline] @ ''USER: Okay, tell me about Stack and Heap.'' @ [newline]),
       RunAsync user_id session_id (new_message ''Okay, tell me about Stack and Heap.''),
       StreamEnd,
       Print [newline],
       GetSession main_app_name user_id session_id,
       LogInfo ''State 'last_mentor_advice': Python fits here only as a contrast: its objects l...''],
      Inr (), [])
   \<and> main (scripted (Some \<lparr>session_ident = session_id, session_state = initial_state\<rparr>))
        [([], None), ([], None)] =
     ([Print initializing_line,
       CreateSession main_app_name user_id session_id initial_state,
       LogInfo ''Session created successfully: session_alpha for user dev_001'',
       Print ([newline] @ ''USER: Hi, can you help me with Python?'' @ [newline]),
       RunAsync user_id session_id (new_message ''Hi, can you help me with Python?''),
       StreamEnd,
       Print [newline],
       Print ([newline] @ ''USER: Okay, tell me about Stack and Heap.'' @ [newline]),
       RunAsync user_id session_id (new_message ''Okay, tell me about Stack and Heap.''),
       StreamEnd,
       Print [newline],
       GetSession main_app_name user_id session_id,
       LogWarning ''State 'last_mentor_advice' is empty!''],
      Inr (), [])"
proof -
  let ?runner = "\<lparr>agent = root_agent, app_name = main_app_name\<rparr>"
  let ?u = "\<lparr>session_ident = session_id,
            session_state = initial_state(''last_mentor_advice'' \<mapsto>
              PyStr ''Python fits here only as a contrast: its objects live on the heap.'')\<rparr>"
  let ?v = "\<lparr>session_ident = session_id, session_state = initial_state\<rparr>"
  let ?w = "[([text_event ''Sure.''], None), ([], None)] :: (Event list \<times> exn option) list"
  let ?x = "[([], None), ([], None)] :: (Event list \<times> exn option) list"
  have a: "create_session (scripted (Some ?u)) ?w main_app_name user_id session_id initial_state =
             (Inr \<lparr>session_ident = session_id, session_state = initial_state\<rparr>, ?w)"
    by (simp add: scripted_def)
  have b: "prompt_loop (scripted (Some ?u)) ?runner ?w prompts =
      ([Print ([newline] @ ''USER: Hi, can you help me with Python?'' @ [newline]),
        RunAsync user_id session_id (new_message ''Hi, can you help me with Python?''),
        Recv (text_event ''Sure.''),
        Print ''MENTOR: Sure.'',
        StreamEnd,
        Print [newline],
        Print ([newline] @ ''USER: Okay, tell me about Stack and Heap.'' @ [newline]),
        RunAsync user_id session_id (new_message ''Okay, tell me about Stack and Heap.''),
        StreamEnd,
        Print [newline]], None, [])"
    by (simp add: turn_def prompts_def scripted_def text_event_def handle_event_def)
  have g: "get_session (scripted (Some ?u)) [] main_app_name user_id session_id =
             (Inr (Some ?u), [])"
    by (simp add: scripted_def)
  have a': "create_session (scripted (Some ?v)) ?x main_app_name user_id session_id initial_state =
             (Inr \<lparr>session_ident = session_id, session_state = initial_state\<rparr>, ?x)"
    by (simp add: scripted_def)
  have b': "prompt_loop (scripted (Some ?v)) ?runner ?x prompts =
      ([Print ([newline] @ ''USER: Hi, can you help me with Python?'' @ [newline]),
        RunAsync user_id session_id (new_message ''Hi, can you help me with Python?''),
        StreamEnd,
        Print [newline],
        Print ([newline] @ ''USER: Okay, tell me about Stack and Heap.'' @ [newline]),
        RunAsync user_id session_id (new_message ''Okay, tell me about Stack and Heap.''),
        StreamEnd,
        Print [newline]], None, [])"
    by (simp add: turn_def prompts_def scripted_def)
  have g': "get_session (scripted (Some ?v)) [] main_app_name user_id session_id =
             (Inr (Some ?v), [])"
    by (simp add: scripted_def)
  show ?thesis
    using verification_is_not_fatal [OF a b g] verification_is_not_fatal [OF a' b' g']
    by (simp add: initial_state_def session_id_def user_id_def)
qed

text \<open>
  C9. When fetching the session after the loop returns no session, the check is skipped:
  nothing is logged after the fetch (the only message logged in the run is the one about
  the created session), nothing is raised, and the process completes normally.
\<close>

theorem absent_session_skips_verification:
  assumes "create_session c w main_app_name user_id session_id initial_state = (Inr s, w1)"
    and "prompt_loop c \<lparr>agent = root_agent, app_name = main_app_name\<rparr> w1 prompts = (t, None, w2)"
    and "get_session c w2 main_app_name user_id session_id = (Inr None, w3)"
  shows "main c w =
           ([Print initializing_line,
             CreateSession main_app_name user_id session_id initial_state,
             LogInfo (''Session created successfully: '' @ session_ident s @ '' for user '' @ user_id)]
            @ t @ [GetSession main_app_name user_id session_id], Inr (), w3)
         \<and> logged (fst (main c w)) =
           [LogInfo (''Session created successfully: '' @ session_ident s @ '' for user '' @ user_id)]"
proof -
  have l: "logged t = []"
    using prompt_loop_logged[of c "\<lparr>agent = root_agent, app_name = main_app_name\<rparr>" w1 prompts] assms(2)
    by simp
  show ?thesis using assms l by (simp add: main_def verify_def logged_append)
qed

theorem absent_session_skips_verification_witness:
  "main (scripted None) [([text_event ''Sure.''], None), ([], None)] =
     ([Print initializing_line,
       CreateSession main_app_name user_id session_id initial_state,
       LogInfo ''Session created successfully: session_alpha for user dev_001'',
       Print ([newline] @ ''USER: Hi, can you help me with Python?'' @ [newline]),
       RunAsync user_id session_id (new_message ''Hi, can you help me with Python?''),
       Recv (text_event ''Sure.''),
       Print ''MENTOR: Sure.'',
       StreamEnd,
       Print [newline],
       Print ([newline] @ ''USER: Okay, tell me about Stack and Heap.'' @ [newline]),
       RunAsync user_id session_id (new_message ''Okay, tell me about Stack and Heap.''),
       StreamEnd,
       Print [newline],
       GetSession main_app_name user_id session_id],
      Inr (), [])
   \<and> logged (fst (main (scripted None) [([text_event ''Sure.''], None), ([], None)])) =
       [LogInfo ''Session created successfully: session_alpha for user dev_001'']"
proof -
  let ?runner = "\<lparr>agent = root_agent, app_name = main_app_name\<rparr>"
  let ?w = "[([text_event ''Sure.''], None), ([], None)] :: (Event list \<times> exn option) list"
  have a: "create_session (scripted None) ?w main_app_name user_id session_id initial_state =
             (Inr \<lparr>session_ident = session_id, session_state = initial_state\<rparr>, ?w)"
    by (simp add: scripted_def)
  have b: "prompt_loop (scripted None) ?runner ?w prompts =
      ([Print ([newline] @ ''USER: Hi, can you help me with Python?'' @ [newline]),
        RunAsync user_id session_id (new_message ''Hi, can you help me with Python?''),
        Recv (text_event ''Sure.''),
        Print ''MENTOR: Sure.'',
        StreamEnd,
        Print [newline],
        Print ([newline] @ ''USER: Okay, tell me about Stack and Heap.'' @ [newline]),
        RunAsync user_id session_id (new_message ''Okay, tell me about Stack and Heap.''),
        StreamEnd,
        Print [newline]], None, [])"
    by (simp add: turn_def prompts_def scripted_def text_event_def handle_event_def)
  have g: "get_session (scripted None) [] main_app_name user_id session_id = (Inr None, [])"
    by (simp add: scripted_def)
  show ?thesis
    using absent_session_skips_verification [OF a b g]
    by (simp add: session_id_def user_id_def)
qed

section \<open>The instruction of each turn\<close>

text \<open>
  C1. The agent configuration holds the function \<open>dynamic_persona_provider\<close> itself, not
  a formatted string, so with the runner of the framework the instruction of each of the
  two turns is the function applied to the session state as that turn finds it: the
  initial state for the first turn, and for the second the state the first turn left,
  with the changes the first turn made.
\<close>

theorem persona_recomputed_each_turn:
  "instruction root_agent = Dynamic dynamic_persona_provider
   \<and> model_calls (snd (snd (main (framework llm) w))) =
     model_calls w @
     (let s0 = initial_state;
          i0 = dynamic_persona_provider \<lparr>state = s0\<rparr>;
          turn1 = llm i0 (new_message ''Hi, can you help me with Python?'') s0;
          s1 = store_output root_agent (fst turn1) (snd turn1);
          i1 = dynamic_persona_provider \<lparr>state = s1\<rparr>
      in [(s0, i0), (s1, i1)])"
  by (simp add: main_def framework_def run_turn_def turn_def prompts_def root_agent_def
      resolve_instruction_def Let_def split: prod.splits option.splits sum.splits)

theorem persona_recomputed_each_turn_witness:
  "map snd (model_calls (snd (snd (main (framework topic_changing_llm)
      \<lparr>sessions = Map.empty, model_calls = []\<rparr>)))) =
   [''You are a strict Senior Tech Lead. You are currently mentoring a user with the rank of 'Junior Developer'. The current discussion topic is locked to: 'Memory Management'. If the user asks about anything else, politely refuse and steer back to Memory Management. Keep answers concise and technical.'',
    ''You are a strict Senior Tech Lead. You are currently mentoring a user with the rank of 'Junior Developer'. The current discussion topic is locked to: 'Stack and Heap'. If the user asks about anything else, politely refuse and steer back to Stack and Heap. Keep answers concise and technical.'']"
  using persona_recomputed_each_turn [of topic_changing_llm "\<lparr>sessions = Map.empty, model_calls = []\<rparr>"]
  by (simp add: topic_changing_llm_def store_output_def root_agent_def text_event_def
      dynamic_persona_provider_def dict_get_def initial_state_def apostrophe_def Let_def)

end
